theory Spec2Isabelle
  imports Main "HOL-Library.Word"
begin

section \<open>Device hints: the generated table of \<^verbatim>\<open>drv/device_hints.c\<close>\<close>

text \<open>
  The file under verification holds one type and one object:
  \<^verbatim>\<open>
  typedef struct {
      char* path;
      uint64_t iomem[32];
      uint64_t ioport[32];
      uint32_t irq;
  } devhint_t;

  devhint_t hints[] = {
  { .iomem = {1016, 1023, 760, 767},
    .irq = 0x4,
    .path = "/rootdev/pci@0/isab@0/isa@0/uart@0"
  },
  { .ioport = {96, 96, 100, 100},
    .iomem = {760, 767},
    .irq = 0x3,
    .path = "/rootdev/pci@0/isab@0/isa@0/uart@1"
  },
  };
  \<close>
  The embedding keeps the two levels of the C text apart: the brace-enclosed
  initializer, whose integer constants have type \<open>int\<close> and whose lists are as long
  as written, and the initialized object, whose members have the widths and the
  array sizes of the struct.
\<close>

subsection \<open>The struct\<close>

type_synonym uint64_t = "64 word"
type_synonym uint32_t = "32 word"

text \<open>
  \<open>char* path\<close> is a pointer: \<open>None\<close> is the null pointer, \<open>Some s\<close> points to the
  characters \<open>s\<close> before the terminating NUL. The two arrays are lists; that their
  length is 32 is a property of the initialization, proved below.
\<close>

record devhint_t =
  path :: "string option"
  iomem :: "uint64_t list"
  ioport :: "uint64_t list"
  irq :: uint32_t

subsection \<open>The initializer\<close>

text \<open>
  One brace-enclosed initializer of a \<open>devhint_t\<close>, as the C text has it: integer
  constants of unbounded value, initializer lists of the length written.
\<close>

record devhint_init =
  init_path :: "string option"
  init_iomem :: "int list"
  init_ioport :: "int list"
  init_irq :: int

text \<open>
  A member that no designator names is initialized as an object of static storage
  duration is: pointers to null, integers to zero, arrays elementwise. For an array
  this is the empty initializer list.
\<close>

definition no_init :: devhint_init where
  "no_init = \<lparr>init_path = None, init_iomem = [], init_ioport = [], init_irq = 0\<rparr>"

text \<open>
  The initializer of \<open>hints\<close>, designator by designator in the order of the source
  (\<open>0x4\<close> and \<open>0x3\<close> are written in decimal).
\<close>

definition hints_init :: "devhint_init list" where
  "hints_init =
    [no_init\<lparr>init_iomem := [1016, 1023, 760, 767],
       init_irq := 4,
       init_path := Some ''/rootdev/pci@0/isab@0/isa@0/uart@0''\<rparr>,
     no_init\<lparr>init_ioport := [96, 96, 100, 100],
       init_iomem := [760, 767],
       init_irq := 3,
       init_path := Some ''/rootdev/pci@0/isab@0/isa@0/uart@1''\<rparr>]"

subsection \<open>Initialization\<close>

text \<open>
  An array of \<open>n\<close> elements initialized from a shorter list: each constant is
  converted to the element type (reduction modulo \<open>2 ^ w\<close>, which is what
  \<open>word_of_int\<close> computes), and the remaining elements are zero. A list longer than
  the array is a constraint violation in C; the model pads only, and the length of
  every array of the table is proved to be 32.
\<close>

definition array_init :: "nat \<Rightarrow> int list \<Rightarrow> 'a::len word list" where
  "array_init n vs = map word_of_int vs @ replicate (n - length vs) 0"

definition devhint_of_init :: "devhint_init \<Rightarrow> devhint_t" where
  "devhint_of_init i =
    \<lparr>path = init_path i,
     iomem = array_init 32 (init_iomem i),
     ioport = array_init 32 (init_ioport i),
     irq = word_of_int (init_irq i)\<rparr>"

text \<open>The object \<open>hints\<close>: its size is the number of initializers.\<close>

definition hints :: "devhint_t list" where
  "hints = map devhint_of_init hints_init"

subsection \<open>Reading ranges out of an array\<close>

text \<open>
  The arrays hold (start, end) pairs in consecutive slots. \<open>pairs\<close> groups the
  slots two by two; \<open>ranges\<close> keeps the pairs before the first all-zero pair, the
  padding; \<open>written\<close> is the array without its trailing zero slots, the values
  that are not padding. \<open>flatten\<close> lays pairs out in slots again.
\<close>

fun pairs :: "'a list \<Rightarrow> ('a \<times> 'a) list" where
  "pairs (a # b # xs) = (a, b) # pairs xs"
| "pairs _ = []"

definition ranges :: "uint64_t list \<Rightarrow> (uint64_t \<times> uint64_t) list" where
  "ranges arr = takeWhile (\<lambda>p. p \<noteq> (0, 0)) (pairs arr)"

definition written :: "uint64_t list \<Rightarrow> uint64_t list" where
  "written arr = rev (dropWhile (\<lambda>v. v = 0) (rev arr))"

fun flatten :: "('a \<times> 'a) list \<Rightarrow> 'a list" where
  "flatten [] = []"
| "flatten ((a, b) # ps) = a # b # flatten ps"

text \<open>Two inclusive intervals share an address.\<close>

definition overlaps :: "uint64_t \<times> uint64_t \<Rightarrow> uint64_t \<times> uint64_t \<Rightarrow> bool" where
  "overlaps p q \<longleftrightarrow> fst p \<le> snd q \<and> fst q \<le> snd p"

section \<open>The table, evaluated\<close>

lemma zeros_unfold:
  "replicate 28 (0::uint64_t) = [0, 0, 0, 0, 0, 0, 0, 0, 0, 0, 0, 0, 0, 0, 0, 0, 0, 0, 0, 0, 0, 0, 0, 0, 0, 0, 0, 0]"
  "replicate 30 (0::uint64_t) = [0, 0, 0, 0, 0, 0, 0, 0, 0, 0, 0, 0, 0, 0, 0, 0, 0, 0, 0, 0, 0, 0, 0, 0, 0, 0, 0, 0, 0, 0]"
  "replicate 32 (0::uint64_t) = [0, 0, 0, 0, 0, 0, 0, 0, 0, 0, 0, 0, 0, 0, 0, 0, 0, 0, 0, 0, 0, 0, 0, 0, 0, 0, 0, 0, 0, 0, 0, 0]"
  by (simp_all add: eval_nat_numeral)

lemma hints_init_unfold:
  "hints_init =
    [\<lparr>init_path = Some ''/rootdev/pci@0/isab@0/isa@0/uart@0'',
      init_iomem = [1016, 1023, 760, 767], init_ioport = [], init_irq = 4\<rparr>,
     \<lparr>init_path = Some ''/rootdev/pci@0/isab@0/isa@0/uart@1'',
      init_iomem = [760, 767], init_ioport = [96, 96, 100, 100], init_irq = 3\<rparr>]"
  by (simp add: hints_init_def no_init_def)

lemma hints_unfold:
  "hints =
    [\<lparr>path = Some ''/rootdev/pci@0/isab@0/isa@0/uart@0'',
      iomem = [1016, 1023, 760, 767] @ replicate 28 0,
      ioport = replicate 32 0,
      irq = 4\<rparr>,
     \<lparr>path = Some ''/rootdev/pci@0/isab@0/isa@0/uart@1'',
      iomem = [760, 767] @ replicate 30 0,
      ioport = [96, 96, 100, 100] @ replicate 28 0,
      irq = 3\<rparr>]"
  by (simp add: hints_def hints_init_unfold devhint_of_init_def array_init_def)

lemma hints_nth:
  "hints ! 0 =
    \<lparr>path = Some ''/rootdev/pci@0/isab@0/isa@0/uart@0'',
     iomem = [1016, 1023, 760, 767] @ replicate 28 0,
     ioport = replicate 32 0,
     irq = 4\<rparr>"
  "hints ! Suc 0 =
    \<lparr>path = Some ''/rootdev/pci@0/isab@0/isa@0/uart@1'',
     iomem = [760, 767] @ replicate 30 0,
     ioport = [96, 96, 100, 100] @ replicate 28 0,
     irq = 3\<rparr>"
  by (simp_all add: hints_unfold)

lemma hints_init_nth:
  "hints_init ! 0 =
    \<lparr>init_path = Some ''/rootdev/pci@0/isab@0/isa@0/uart@0'',
     init_iomem = [1016, 1023, 760, 767], init_ioport = [], init_irq = 4\<rparr>"
  "hints_init ! Suc 0 =
    \<lparr>init_path = Some ''/rootdev/pci@0/isab@0/isa@0/uart@1'',
     init_iomem = [760, 767], init_ioport = [96, 96, 100, 100], init_irq = 3\<rparr>"
  by (simp_all add: hints_init_unfold)

lemma hints_length: "length hints = 2"
  by (simp add: hints_unfold)

lemma hints_init_length: "length hints_init = 2"
  by (simp add: hints_init_unfold)

lemma hints_mem: "hints ! 0 \<in> set hints" "hints ! Suc 0 \<in> set hints"
  by (simp_all add: hints_length)

lemma hints_init_mem:
  "hints_init ! 0 \<in> set hints_init" "hints_init ! Suc 0 \<in> set hints_init"
  by (simp_all add: hints_init_length)

lemma ranges_hints:
  "ranges (iomem (hints ! 0)) = [(1016, 1023), (760, 767)]"
  "ranges (ioport (hints ! 0)) = []"
  "ranges (iomem (hints ! Suc 0)) = [(760, 767)]"
  "ranges (ioport (hints ! Suc 0)) = [(96, 96), (100, 100)]"
  by (simp_all add: hints_nth ranges_def zeros_unfold)

lemma written_hints:
  "written (iomem (hints ! 0)) = [1016, 1023, 760, 767]"
  "written (ioport (hints ! 0)) = []"
  "written (iomem (hints ! Suc 0)) = [760, 767]"
  "written (ioport (hints ! Suc 0)) = [96, 96, 100, 100]"
  by (simp_all add: hints_nth written_def zeros_unfold)

lemma length_hints_arrays:
  "length (iomem (hints ! 0)) = 32" "length (ioport (hints ! 0)) = 32"
  "length (iomem (hints ! Suc 0)) = 32" "length (ioport (hints ! Suc 0)) = 32"
  by (simp_all add: hints_nth)

lemma ball_hints: "(\<forall>r\<in>set hints. P r) \<longleftrightarrow> P (hints ! 0) \<and> P (hints ! Suc 0)"
  by (simp add: hints_unfold)

lemma ball_hints_init:
  "(\<forall>r\<in>set hints_init. P r) \<longleftrightarrow> P (hints_init ! 0) \<and> P (hints_init ! Suc 0)"
  by (simp add: hints_init_unfold)

lemma slot_past_prefix:
  fixes xs :: "uint64_t list"
  assumes tail: "drop k xs = replicate n 0" and ki: "k \<le> i" and il: "i < length xs"
  shows "xs ! i = 0"
proof -
  have len: "length xs - k = n"
    using arg_cong [OF tail, of length] by simp
  have "xs ! i = drop k xs ! (i - k)"
    using ki il by simp
  also have "\<dots> = replicate n 0 ! (i - k)"
    by (simp only: tail)
  also have "\<dots> = 0"
    using ki il len by simp
  finally show ?thesis .
qed

lemma padding_hints:
  "drop 4 (iomem (hints ! 0)) = replicate 28 0"
  "drop 0 (ioport (hints ! 0)) = replicate 32 0"
  "drop 2 (iomem (hints ! Suc 0)) = replicate 30 0"
  "drop 4 (ioport (hints ! Suc 0)) = replicate 28 0"
  by (simp_all add: hints_nth)

lemma pairs_hints:
  "length (pairs (iomem (hints ! 0))) = 16" "length (pairs (ioport (hints ! 0))) = 16"
  "length (pairs (iomem (hints ! Suc 0))) = 16" "length (pairs (ioport (hints ! Suc 0))) = 16"
  by (simp_all add: hints_nth zeros_unfold)

section \<open>Content of the table\<close>

text \<open>
  C1. The table has exactly two records, in this order: the one of path
  \<open>/rootdev/pci@0/isab@0/isa@0/uart@0\<close>, then the one of path
  \<open>/rootdev/pci@0/isab@0/isa@0/uart@1\<close>; every field has the value listed for it:
  the written values first, zero in the other slots.
\<close>

theorem hints_content:
  "length hints = 2 \<and>
   hints =
    [\<lparr>path = Some ''/rootdev/pci@0/isab@0/isa@0/uart@0'',
      iomem = [1016, 1023, 760, 767] @ replicate 28 0,
      ioport = replicate 32 0,
      irq = 4\<rparr>,
     \<lparr>path = Some ''/rootdev/pci@0/isab@0/isa@0/uart@1'',
      iomem = [760, 767] @ replicate 30 0,
      ioport = [96, 96, 100, 100] @ replicate 28 0,
      irq = 3\<rparr>]"
  by (rule conjI [OF hints_length hints_unfold])

text \<open>
  C2. The first record has the path of \<open>uart@0\<close>; its iomem ranges are exactly
  (1016,1023) and (760,767); it has no ioport range, every one of the 32 ioport
  slots being zero; its irq is 4.
\<close>

theorem hints_record_1:
  "path (hints ! 0) = Some ''/rootdev/pci@0/isab@0/isa@0/uart@0'' \<and>
   ranges (iomem (hints ! 0)) = [(1016, 1023), (760, 767)] \<and>
   ranges (ioport (hints ! 0)) = [] \<and>
   ioport (hints ! 0) = replicate 32 0 \<and>
   irq (hints ! 0) = 4"
  by (simp add: ranges_hints) (simp add: hints_nth)

text \<open>
  C3. The second record has the path of \<open>uart@1\<close>; its only iomem range is
  (760,767); its ioport ranges are exactly (96,96) and (100,100); its irq is 3.
\<close>

theorem hints_record_2:
  "path (hints ! 1) = Some ''/rootdev/pci@0/isab@0/isa@0/uart@1'' \<and>
   ranges (iomem (hints ! 1)) = [(760, 767)] \<and>
   ranges (ioport (hints ! 1)) = [(96, 96), (100, 100)] \<and>
   irq (hints ! 1) = 3"
  by (simp add: ranges_hints) (simp add: hints_nth)


section \<open>Invariants of the table\<close>

text \<open>
  C4. Every record of the table has a path that is not empty (and not the null
  pointer), and two records at different positions of the table have different
  paths: the path is a key of the table.
\<close>

theorem hints_path_key:
  "(\<forall>r\<in>set hints. \<exists>s. path r = Some s \<and> s \<noteq> []) \<and>
   (\<forall>i<length hints. \<forall>j<length hints. i \<noteq> j \<longrightarrow> path (hints ! i) \<noteq> path (hints ! j)) \<and>
   distinct (map path hints)"
proof -
  have ne: "\<forall>r\<in>set hints. \<exists>s. path r = Some s \<and> s \<noteq> []"
    by (simp add: ball_hints hints_nth)
  have d: "distinct (map path hints)"
    by (simp add: hints_unfold)
  have "\<forall>i<length hints. \<forall>j<length hints. i \<noteq> j \<longrightarrow> path (hints ! i) \<noteq> path (hints ! j)"
  proof (intro allI impI)
    fix i j assume i: "i < length hints" and j: "j < length hints" and ij: "i \<noteq> j"
    have "map path hints ! i \<noteq> map path hints ! j"
      using d i j ij by (simp only: distinct_conv_nth length_map) blast
    then show "path (hints ! i) \<noteq> path (hints ! j)"
      using i j by simp
  qed
  with ne d show ?thesis by blast
qed

theorem hints_path_key_witness:
  "hints ! 0 \<in> set hints \<and> (\<exists>s. path (hints ! 0) = Some s \<and> s \<noteq> []) \<and>
   0 < length hints \<and> 1 < length hints \<and> (0::nat) \<noteq> 1 \<and>
   path (hints ! 0) \<noteq> path (hints ! 1)"
proof -
  have m: "hints ! 0 \<in> set hints" and l0: "0 < length hints" and l1: "1 < length hints"
    by (simp_all add: hints_length)
  have n: "(0::nat) \<noteq> 1" by simp
  from hints_path_key m l0 l1 n show ?thesis by blast
qed

text \<open>
  C5. In every record of the table the iomem array and the ioport array have
  exactly 32 slots of 64 bits, that is room for 16 (start, end) pairs, and every
  slot after the last range of the array is zero.
\<close>

theorem hints_arrays_padded:
  "\<forall>r\<in>set hints.
     length (iomem r) = 32 \<and> length (ioport r) = 32 \<and>
     length (pairs (iomem r)) = 16 \<and> length (pairs (ioport r)) = 16 \<and>
     (\<forall>i<32. 2 * length (ranges (iomem r)) \<le> i \<longrightarrow> iomem r ! i = 0) \<and>
     (\<forall>i<32. 2 * length (ranges (ioport r)) \<le> i \<longrightarrow> ioport r ! i = 0)"
proof -
  have a: "\<forall>i<32. 2 * length (ranges (iomem (hints ! 0))) \<le> i \<longrightarrow> iomem (hints ! 0) ! i = 0"
    using slot_past_prefix [OF padding_hints(1)]
    by (simp add: ranges_hints length_hints_arrays)
  have b: "\<forall>i<32. 2 * length (ranges (ioport (hints ! 0))) \<le> i \<longrightarrow> ioport (hints ! 0) ! i = 0"
    using slot_past_prefix [OF padding_hints(2)]
    by (simp add: ranges_hints length_hints_arrays)
  have c: "\<forall>i<32. 2 * length (ranges (iomem (hints ! Suc 0))) \<le> i \<longrightarrow> iomem (hints ! Suc 0) ! i = 0"
    using slot_past_prefix [OF padding_hints(3)]
    by (simp add: ranges_hints length_hints_arrays)
  have d: "\<forall>i<32. 2 * length (ranges (ioport (hints ! Suc 0))) \<le> i \<longrightarrow> ioport (hints ! Suc 0) ! i = 0"
    using slot_past_prefix [OF padding_hints(4)]
    by (simp add: ranges_hints length_hints_arrays)
  show ?thesis
    unfolding ball_hints
    using a b c d by (simp only: length_hints_arrays pairs_hints simp_thms)
qed

theorem hints_arrays_padded_witness:
  "hints ! 0 \<in> set hints \<and> length (iomem (hints ! 0)) = 32 \<and>
   (4::nat) < 32 \<and> 2 * length (ranges (iomem (hints ! 0))) \<le> 4 \<and>
   iomem (hints ! 0) ! 4 = 0"
proof -
  have m: "hints ! 0 \<in> set hints" by (rule hints_mem(1))
  have k: "(4::nat) < 32" by simp
  have r: "2 * length (ranges (iomem (hints ! 0))) \<le> 4" by (simp add: ranges_hints)
  from hints_arrays_padded m k r show ?thesis by blast
qed

text \<open>
  C6. For every record of the table, the number of values written into iomem is
  even, and so is the number written into ioport, both counted on the initializer
  and on the array without its trailing zeros; and the values that are not padding
  are exactly the ranges laid out start, end, start, end: no start is left
  without its end.
\<close>

theorem hints_ranges_complete:
  "(\<forall>r\<in>set hints_init. even (length (init_iomem r)) \<and> even (length (init_ioport r))) \<and>
   (\<forall>r\<in>set hints.
      even (length (written (iomem r))) \<and> even (length (written (ioport r))) \<and>
      flatten (ranges (iomem r)) = written (iomem r) \<and>
      flatten (ranges (ioport r)) = written (ioport r))"
  by (simp add: ball_hints ball_hints_init hints_init_nth ranges_hints written_hints)

theorem hints_ranges_complete_witness:
  "hints_init ! 0 \<in> set hints_init \<and> even (length (init_iomem (hints_init ! 0))) \<and>
   hints ! 1 \<in> set hints \<and> even (length (written (ioport (hints ! 1)))) \<and>
   flatten (ranges (ioport (hints ! 1))) = written (ioport (hints ! 1))"
proof -
  have m: "hints_init ! 0 \<in> set hints_init" by (rule hints_init_mem(1))
  have n: "hints ! 1 \<in> set hints" by (simp add: hints_mem)
  from hints_ranges_complete m n show ?thesis by blast
qed

section \<open>Value ranges\<close>

text \<open>
  C8. Every irq of the table fits an unsigned 32-bit integer and every iomem and
  ioport slot fits an unsigned 64-bit integer. This holds of the constants as they
  are written in the initializer, so that no conversion truncates: the stored values
  read back as the constants. The constants of the initializer are 4, 3, 1016,
  1023, 760, 767, 96 and 100.
\<close>

theorem hints_values_in_range:
  "(\<forall>r\<in>set hints_init.
      0 \<le> init_irq r \<and> init_irq r < 2 ^ 32 \<and>
      (\<forall>v\<in>set (init_iomem r) \<union> set (init_ioport r). 0 \<le> v \<and> v < 2 ^ 64)) \<and>
   (\<forall>r\<in>set hints.
      0 \<le> uint (irq r) \<and> uint (irq r) < 2 ^ 32 \<and>
      (\<forall>v\<in>set (iomem r) \<union> set (ioport r). 0 \<le> uint v \<and> uint v < 2 ^ 64)) \<and>
   (\<Union>r\<in>set hints_init. insert (init_irq r) (set (init_iomem r) \<union> set (init_ioport r)))
     = {4, 3, 1016, 1023, 760, 767, 96, 100} \<and>
   map (\<lambda>r. uint (irq r)) hints = map init_irq hints_init \<and>
   map (\<lambda>r. map uint (written (iomem r))) hints = map init_iomem hints_init \<and>
   map (\<lambda>r. map uint (written (ioport r))) hints = map init_ioport hints_init"
proof -
  have lit: "\<forall>r\<in>set hints_init.
      0 \<le> init_irq r \<and> init_irq r < 2 ^ 32 \<and>
      (\<forall>v\<in>set (init_iomem r) \<union> set (init_ioport r). 0 \<le> v \<and> v < 2 ^ 64)"
    by (simp add: ball_hints_init hints_init_nth)
  have obj: "\<forall>r\<in>set hints.
      0 \<le> uint (irq r) \<and> uint (irq r) < 2 ^ 32 \<and>
      (\<forall>v\<in>set (iomem r) \<union> set (ioport r). 0 \<le> uint v \<and> uint v < 2 ^ 64)"
    by (simp add: ball_hints hints_nth)
  have cs: "(\<Union>r\<in>set hints_init.
      insert (init_irq r) (set (init_iomem r) \<union> set (init_ioport r)))
     = {4, 3, 1016, 1023, 760, 767, 96, 100}"
    by (auto simp add: hints_init_unfold)
  have two: "hints = [hints ! 0, hints ! Suc 0]"
    by (simp add: hints_unfold)
  have irqs: "map (\<lambda>r. uint (irq r)) hints = map init_irq hints_init"
    by (subst two) (simp add: hints_nth hints_init_unfold)
  have rb:
    "map (\<lambda>r. map uint (written (iomem r))) hints = map init_iomem hints_init"
    "map (\<lambda>r. map uint (written (ioport r))) hints = map init_ioport hints_init"
    by (subst two, simp add: written_hints hints_init_unfold)+
  from lit obj cs irqs rb show ?thesis by (intro conjI)
qed

theorem hints_values_in_range_witness:
  "hints_init ! 0 \<in> set hints_init \<and> init_irq (hints_init ! 0) < 2 ^ 32 \<and>
   hints ! 0 \<in> set hints \<and> uint (irq (hints ! 0)) < 2 ^ 32 \<and>
   map (\<lambda>r. uint (irq r)) hints = map init_irq hints_init"
proof -
  have m: "hints_init ! 0 \<in> set hints_init" by (rule hints_init_mem(1))
  have n: "hints ! 0 \<in> set hints" by (rule hints_mem(1))
  from hints_values_in_range m n show ?thesis by blast
qed

section \<open>Shape of the ranges\<close>

text \<open>
  C9. In every record of the table, every range (start, end) of iomem and of ioport
  has start \<open>\<le>\<close> end.
\<close>

theorem hints_ranges_ordered:
  "\<forall>r\<in>set hints. \<forall>p\<in>set (ranges (iomem r)) \<union> set (ranges (ioport r)). fst p \<le> snd p"
  by (simp add: ball_hints ranges_hints)

theorem hints_ranges_ordered_witness:
  "hints ! 0 \<in> set hints \<and>
   (1016, 1023) \<in> set (ranges (iomem (hints ! 0))) \<union> set (ranges (ioport (hints ! 0))) \<and>
   fst (1016 :: uint64_t, 1023 :: uint64_t) \<le> snd (1016 :: uint64_t, 1023 :: uint64_t)"
proof -
  have m: "hints ! 0 \<in> set hints" by (rule hints_mem(1))
  have p: "(1016, 1023) \<in> set (ranges (iomem (hints ! 0))) \<union> set (ranges (ioport (hints ! 0)))"
    by (simp add: ranges_hints)
  from hints_ranges_ordered m p show ?thesis by blast
qed

text \<open>
  C10. The iomem ranges of different records are not disjoint: (760,767) is the
  second iomem range of the first record and the only iomem range of the second
  record, so two different records of the table have iomem ranges that overlap.
\<close>

theorem hints_iomem_shared:
  "hints ! 0 \<noteq> hints ! 1 \<and>
   ranges (iomem (hints ! 0)) ! 1 = (760, 767) \<and>
   length (ranges (iomem (hints ! 0))) = 2 \<and>
   ranges (iomem (hints ! 1)) = [(760, 767)] \<and>
   overlaps (ranges (iomem (hints ! 0)) ! 1) (ranges (iomem (hints ! 1)) ! 0) \<and>
   (\<exists>i j p q. i < length hints \<and> j < length hints \<and> i \<noteq> j \<and>
      p \<in> set (ranges (iomem (hints ! i))) \<and> q \<in> set (ranges (iomem (hints ! j))) \<and>
      overlaps p q)"
proof -
  have ne: "hints ! 0 \<noteq> hints ! 1"
    by (simp add: hints_nth)
  have r0: "ranges (iomem (hints ! 0)) ! 1 = (760, 767)"
    and l0: "length (ranges (iomem (hints ! 0))) = 2"
    and r1: "ranges (iomem (hints ! 1)) = [(760, 767)]"
    by (simp_all add: ranges_hints)
  have ov: "overlaps (ranges (iomem (hints ! 0)) ! 1) (ranges (iomem (hints ! 1)) ! 0)"
    by (simp add: ranges_hints overlaps_def)
  have "0 < length hints \<and> Suc 0 < length hints \<and> 0 \<noteq> Suc 0 \<and>
      (760, 767) \<in> set (ranges (iomem (hints ! 0))) \<and>
      (760, 767) \<in> set (ranges (iomem (hints ! Suc 0))) \<and>
      overlaps (760, 767) (760, 767)"
    by (simp add: hints_length ranges_hints overlaps_def)
  then have ex: "\<exists>i j p q. i < length hints \<and> j < length hints \<and> i \<noteq> j \<and>
      p \<in> set (ranges (iomem (hints ! i))) \<and> q \<in> set (ranges (iomem (hints ! j))) \<and>
      overlaps p q"
    by blast
  from ne r0 l0 r1 ov ex show ?thesis by (intro conjI)
qed

end
